theory Spec2Isabelle
  imports Main
begin

section \<open>JavaScript values, errors and sequencing\<close>

text \<open>
  A thrown JavaScript \<^verbatim>\<open>Error\<close>: the optional \<^verbatim>\<open>code\<close> property (set by the
  filesystem API, for instance \<^verbatim>\<open>ENOENT\<close>) and the \<^verbatim>\<open>message\<close>.
\<close>

datatype js_error = JsError (err_code: "string option") (err_message: string)

text \<open>
  An \<^verbatim>\<open>async\<close> function is a state transformer that either resolves with a value
  (\<open>Inr\<close>) or rejects with an error (\<open>Inl\<close>); \<^verbatim>\<open>await\<close> in sequence is \<open>js_then\<close>,
  and a rejection skips the rest of the block, as the exception does.
\<close>

type_synonym ('s, 'a) js = "'s \<Rightarrow> (js_error + 'a) \<times> 's"

definition js_return :: "'a \<Rightarrow> ('s, 'a) js" where
  "js_return x s = (Inr x, s)"

definition js_throw :: "js_error \<Rightarrow> ('s, 'a) js" where
  "js_throw e s = (Inl e, s)"

definition js_then :: "('s, 'a) js \<Rightarrow> ('a \<Rightarrow> ('s, 'b) js) \<Rightarrow> ('s, 'b) js" where
  "js_then m k s = (case m s of (Inl e, s') \<Rightarrow> (Inl e, s') | (Inr x, s') \<Rightarrow> k x s')"

definition js_do :: "('s \<Rightarrow> 's) \<Rightarrow> ('s, unit) js" where
  "js_do f s = (Inr (), f s)"

definition js_when :: "bool \<Rightarrow> ('s, unit) js \<Rightarrow> ('s, unit) js" where
  "js_when b m = (if b then m else js_return ())"

section \<open>Strings\<close>

text \<open>
  Text is a list of 8-bit code units. \<^verbatim>\<open>String.prototype.split('\n')\<close> cuts at every
  line feed and always returns at least one piece; \<^verbatim>\<open>trim\<close> removes the ECMAScript
  white space and line terminators from both ends (those of the 8-bit range: TAB, LF, VT,
  FF, CR, SPACE, NBSP).
\<close>

fun js_split :: "char \<Rightarrow> string \<Rightarrow> string list" where
  "js_split sep [] = [[]]"
| "js_split sep (c # cs) =
     (if c = sep then [] # js_split sep cs
      else (case js_split sep cs of [] \<Rightarrow> [[c]] | l # ls \<Rightarrow> (c # l) # ls))"

definition is_white_space :: "char \<Rightarrow> bool" where
  "is_white_space c = ((of_char c :: nat) \<in> {9, 10, 11, 12, 13, 32, 160})"

definition js_trim :: "string \<Rightarrow> string" where
  "js_trim s = rev (dropWhile is_white_space (rev (dropWhile is_white_space s)))"

definition startsWith :: "string \<Rightarrow> string \<Rightarrow> bool" where
  "startsWith s p = (take (length p) s = p)"

fun digits :: "nat \<Rightarrow> string" where
  "digits n =
     (if n < 10 then [''0123456789'' ! n]
      else digits (n div 10) @ [''0123456789'' ! (n mod 10)])"

definition js_number :: "int \<Rightarrow> string" where
  "js_number k = (if k < 0 then CHR ''-'' # digits (nat (- k)) else digits (nat k))"

section \<open>The outside world: database engine, filesystem, clock, progress channel\<close>

text \<open>
  A path of the filesystem holds a regular file with its bytes, or is \<open>Faulty\<close>: present
  but every access raises the given error (permission denied, a directory, an I/O error).
\<close>

datatype node = Regular string | Faulty js_error

text \<open>The commands sent to the engine through the \<^verbatim>\<open>mysql\<close> and \<^verbatim>\<open>mysqldump\<close> programs.\<close>

datatype call =
    ShowDatabasesLike string
  | DropDatabase string
  | CreateDatabase string
  | MysqlImport string string
  | DumpStructure string
  | DumpData string "string list"
  | QueryInfo string

text \<open>
  What the outside decides for one command: \<open>stderr = Some text\<close> when the program fails
  for a reason of its own (server unreachable, access denied, bad SQL), the chunks the
  streaming listener receives, and the figures the engine reports for a database.
\<close>

record reply =
  stderr :: "string option"
  chunks :: "string list"
  tables :: nat
  sizeMB :: nat

definition quiet :: reply where
  "quiet = \<lparr>stderr = None, chunks = [], tables = 0, sizeMB = 0\<rparr>"

record progress_event =
  current :: nat
  total :: nat
  currentFile :: "string option"
  step :: string
  stepProgress :: "int option"

record world =
  databases :: "string list"
  disk :: "string \<rightharpoonup> node"
  dirs :: "string list"
  script :: "reply list"
  clock :: "int list"
  wallclock :: int
  calls :: "call list"
  sent :: "progress_event list"

text \<open>
  The engine's own verdict on a command that reached it: \<open>None\<close> is exit status 0.
  Dropping a database that is absent, creating one that is present, and importing into or
  dumping an absent one are refused by the engine.
\<close>

definition engine :: "call \<Rightarrow> 'a world_scheme \<Rightarrow> string option \<times> 'a world_scheme" where
  "engine c w =
     (case c of
        ShowDatabasesLike n \<Rightarrow> (None, w)
      | DropDatabase n \<Rightarrow>
          (if n \<in> set (databases w) then (None, w\<lparr>databases := removeAll n (databases w)\<rparr>)
           else (Some ''ERROR 1008: database does not exist'', w))
      | CreateDatabase n \<Rightarrow>
          (if n \<in> set (databases w) then (Some ''ERROR 1007: database exists'', w)
           else (None, w\<lparr>databases := n # databases w\<rparr>))
      | MysqlImport n f \<Rightarrow>
          (if n \<in> set (databases w) then (None, w) else (Some ''ERROR 1049: unknown database'', w))
      | DumpStructure n \<Rightarrow>
          (if n \<in> set (databases w) then (None, w) else (Some ''ERROR 1049: unknown database'', w))
      | DumpData n ex \<Rightarrow>
          (if n \<in> set (databases w) then (None, w) else (Some ''ERROR 1049: unknown database'', w))
      | QueryInfo n \<Rightarrow> (None, w))"

text \<open>
  \<^verbatim>\<open>spawn\<close>: the command is recorded, the next reply of the script is consumed (a quiet
  success when the script is exhausted), and the exit status is the reply's failure if it
  has one, the engine's verdict otherwise.
\<close>

definition spawn :: "call \<Rightarrow> 'a world_scheme \<Rightarrow> (string option \<times> reply) \<times> 'a world_scheme" where
  "spawn c w =
     (let r = (case script w of [] \<Rightarrow> quiet | r # rs \<Rightarrow> r);
          w1 = w\<lparr>script := tl (script w), calls := calls w @ [c]\<rparr>
      in case stderr r of
           Some err \<Rightarrow> ((Some err, r), w1)
         | None \<Rightarrow> (case engine c w1 of (code, w2) \<Rightarrow> ((code, r), w2)))"

text \<open>
  \<^verbatim>\<open>Date.now()\<close> takes the next reading of the clock (the last one again when the
  readings are exhausted); the readings need not increase. \<^verbatim>\<open>senderWindow.send\<close>
  appends the event to what the channel carried: the window is taken to be alive, so
  sending does not throw.
\<close>

definition date_now :: "'a world_scheme \<Rightarrow> int \<times> 'a world_scheme" where
  "date_now w = (case clock w of [] \<Rightarrow> (wallclock w, w) | t # ts \<Rightarrow> (t, w\<lparr>clock := ts, wallclock := t\<rparr>))"

definition send :: "progress_event \<Rightarrow> 'a world_scheme \<Rightarrow> 'a world_scheme" where
  "send ev w = w\<lparr>sent := sent w @ [ev]\<rparr>"

definition enoent :: "string \<Rightarrow> js_error" where
  "enoent p = JsError (Some ''ENOENT'') (''ENOENT: no such file or directory, '' @ p)"

definition fs_readFile :: "string \<Rightarrow> ('a world_scheme, string) js" where
  "fs_readFile p w =
     (case disk w p of
        None \<Rightarrow> (Inl (enoent p), w)
      | Some (Faulty e) \<Rightarrow> (Inl e, w)
      | Some (Regular content) \<Rightarrow> (Inr content, w))"

definition fs_stat :: "string \<Rightarrow> ('a world_scheme, nat) js" where
  "fs_stat p w =
     (case disk w p of
        None \<Rightarrow> (Inl (enoent p), w)
      | Some (Faulty e) \<Rightarrow> (Inl e, w)
      | Some (Regular content) \<Rightarrow> (Inr (length content), w))"

definition fs_unlink :: "string \<Rightarrow> ('a world_scheme, unit) js" where
  "fs_unlink p w =
     (case disk w p of
        None \<Rightarrow> (Inl (enoent p), w)
      | Some n \<Rightarrow> (Inr (), w\<lparr>disk := (disk w)(p := None)\<rparr>))"

definition writeFile :: "string \<Rightarrow> string \<Rightarrow> 'a world_scheme \<Rightarrow> 'a world_scheme" where
  "writeFile p content w = w\<lparr>disk := (disk w)(p \<mapsto> Regular content)\<rparr>"

section \<open>lib/files: the exclusion list\<close>

text \<open>
  \<^verbatim>\<open>loadExcludeTables(configPath)\<close>: read the file, split at line feeds, trim every
  line, keep the lines that are non-empty and do not start with \<^verbatim>\<open>#\<close>; a missing file
  gives the empty list, any other error is rethrown.
\<close>

definition loadExcludeTables :: "string \<Rightarrow> ('a world_scheme, string list) js" where
  "loadExcludeTables configPath w =
     (case fs_readFile configPath w of
        (Inr content, w1) \<Rightarrow>
          (let lines = js_split CHR 0x0A content
           in (Inr (filter (\<lambda>line. line \<noteq> [] \<and> \<not> startsWith line ''#'') (map js_trim lines)), w1))
      | (Inl error, w1) \<Rightarrow>
          (if err_code error = Some ''ENOENT'' then (Inr [], w1) else (Inl error, w1)))"


section \<open>lib/mysql: commands on the engine\<close>

text \<open>
  \<^verbatim>\<open>databaseExists\<close> resolves, on exit status 0, with whether the listing printed a row
  below its header, which it does when the engine has the database; the three commands
  reject with the captured standard error on any other exit status.
\<close>

definition databaseExists :: "string \<Rightarrow> ('a world_scheme, bool) js" where
  "databaseExists dbName w =
     (case spawn (ShowDatabasesLike dbName) w of
        ((None, r), w1) \<Rightarrow> (Inr (dbName \<in> set (databases w1)), w1)
      | ((Some err, r), w1) \<Rightarrow>
          (Inl (JsError None (''MySQL check database failed: '' @ err)), w1))"

definition dropDatabase :: "string \<Rightarrow> ('a world_scheme, unit) js" where
  "dropDatabase dbName w =
     (case spawn (DropDatabase dbName) w of
        ((None, r), w1) \<Rightarrow> (Inr (), w1)
      | ((Some err, r), w1) \<Rightarrow>
          (Inl (JsError None (''MySQL drop database failed: '' @ err)), w1))"

definition createDatabase :: "string \<Rightarrow> ('a world_scheme, unit) js" where
  "createDatabase dbName w =
     (case spawn (CreateDatabase dbName) w of
        ((None, r), w1) \<Rightarrow> (Inr (), w1)
      | ((Some err, r), w1) \<Rightarrow>
          (Inl (JsError None (''MySQL create database failed: '' @ err)), w1))"

text \<open>
  \<^verbatim>\<open>getDatabaseInfo\<close> asks the engine over the client connection; a failed query
  throws the driver's error.
\<close>

definition getDatabaseInfo :: "string \<Rightarrow> ('a world_scheme, nat \<times> nat) js" where
  "getDatabaseInfo dbName w =
     (case spawn (QueryInfo dbName) w of
        ((None, r), w1) \<Rightarrow> (Inr (tables r, sizeMB r), w1)
      | ((Some err, r), w1) \<Rightarrow> (Inl (JsError None err), w1))"

text \<open>
  The \<^verbatim>\<open>'data'\<close> listener of a stream: each chunk adds its length to the running
  byte count, and the listener's body runs on the new count.
\<close>

fun deliver :: "string list \<Rightarrow> nat \<Rightarrow> (nat \<Rightarrow> 's \<Rightarrow> 's) \<Rightarrow> 's \<Rightarrow> 's" where
  "deliver [] bytes body s = s"
| "deliver (chunk # rest) bytes body s =
     (let bytes' = bytes + length chunk in deliver rest bytes' body (body bytes' s))"

definition importSql ::
  "string \<Rightarrow> string \<Rightarrow> (nat \<Rightarrow> 'a world_scheme \<Rightarrow> 'a world_scheme) option \<Rightarrow> ('a world_scheme, unit) js"
where
  "importSql dbName sqlFile onProgress w =
     (case spawn (MysqlImport dbName sqlFile) w of
        ((code, r), w1) \<Rightarrow>
          (let w2 = deliver (chunks r) 0
                      (\<lambda>bytesProcessed.
                          case onProgress of None \<Rightarrow> id | Some cb \<Rightarrow> cb bytesProcessed) w1
           in case code of
                None \<Rightarrow> (Inr (), w2)
              | Some err \<Rightarrow> (Inl (JsError None (''MySQL import failed: '' @ err)), w2)))"

section \<open>lib/mysql: the slim export\<close>

text \<open>The functions of Node's \<^verbatim>\<open>path\<close> module that the code calls are parameters.\<close>

record node_path =
  path_basename :: "string \<Rightarrow> string \<Rightarrow> string"
  path_dirname :: "string \<Rightarrow> string"
  path_join :: "string \<Rightarrow> string \<Rightarrow> string"

definition swallow :: "('s, unit) js \<Rightarrow> ('s, unit) js" where
  "swallow m s = (case m s of (r, s') \<Rightarrow> (Inr (), s'))"

text \<open>
  Phase 1: \<^verbatim>\<open>mysqldump --no-data\<close> streamed to the structure file; the callback gets
  \<^verbatim>\<open>Math.floor(bytesWritten / 2)\<close>.
\<close>

definition exportStructure ::
  "string \<Rightarrow> string \<Rightarrow> (nat \<Rightarrow> 'a world_scheme \<Rightarrow> 'a world_scheme) option \<Rightarrow> ('a world_scheme, unit) js"
where
  "exportStructure dbName structureFile onProgress w =
     (case spawn (DumpStructure dbName) w of
        ((code, r), w1) \<Rightarrow>
          (let w2 = writeFile structureFile (concat (chunks r)) w1;
               w3 = deliver (chunks r) 0
                      (\<lambda>bytesWritten.
                          case onProgress of None \<Rightarrow> id
                          | Some cb \<Rightarrow> cb (bytesWritten div 2)) w2
           in case code of
                None \<Rightarrow> (Inr (), w3)
              | Some err \<Rightarrow>
                  (Inl (JsError None (''MySQL structure export failed: '' @ err)), w3)))"

text \<open>
  Phase 2: \<^verbatim>\<open>mysqldump --no-create-info\<close> with one \<^verbatim>\<open>--ignore-table\<close> per excluded
  table, streamed to the data file; the callback gets
  \<^verbatim>\<open>Math.floor(bytesWritten / 2) + bytesWritten\<close>.
\<close>

definition exportData ::
  "string \<Rightarrow> string \<Rightarrow> string list \<Rightarrow> (nat \<Rightarrow> 'a world_scheme \<Rightarrow> 'a world_scheme) option
     \<Rightarrow> ('a world_scheme, unit) js"
where
  "exportData dbName dataFile excludeDataTables onProgress w =
     (case spawn (DumpData dbName excludeDataTables) w of
        ((code, r), w1) \<Rightarrow>
          (let w2 = writeFile dataFile (concat (chunks r)) w1;
               w3 = deliver (chunks r) 0
                      (\<lambda>bytesWritten.
                          case onProgress of None \<Rightarrow> id
                          | Some cb \<Rightarrow> cb (bytesWritten div 2 + bytesWritten)) w2
           in case code of
                None \<Rightarrow> (Inr (), w3)
              | Some err \<Rightarrow>
                  (Inl (JsError None (''MySQL data export failed: '' @ err)), w3)))"

text \<open>
  Phase 3: the output is opened for writing (created or truncated), the structure file is
  piped into it without ending it, then the data file; an error of either reader rejects.
  The streams are taken in the order the code chains them, one after the other.
\<close>

definition appendFile :: "string \<Rightarrow> string \<Rightarrow> 'a world_scheme \<Rightarrow> 'a world_scheme" where
  "appendFile p more_bytes w =
     (case disk w p of
        Some (Regular content) \<Rightarrow> writeFile p (content @ more_bytes) w
      | _ \<Rightarrow> writeFile p more_bytes w)"

definition concatenate :: "string \<Rightarrow> string \<Rightarrow> string \<Rightarrow> ('a world_scheme, unit) js" where
  "concatenate structureFile dataFile outFile =
     js_then (js_do (writeFile outFile []))
       (\<lambda>_. js_then (fs_readFile structureFile)
       (\<lambda>structure. js_then (js_do (appendFile outFile structure))
       (\<lambda>_. js_then (fs_readFile dataFile)
       (\<lambda>data. js_do (appendFile outFile data)))))"

definition tempStructureFile :: "node_path \<Rightarrow> string \<Rightarrow> int \<Rightarrow> string" where
  "tempStructureFile P outFile t =
     path_join P (path_dirname P outFile) (''._temp_structure_'' @ js_number t @ ''.sql'')"

definition tempDataFile :: "node_path \<Rightarrow> string \<Rightarrow> int \<Rightarrow> string" where
  "tempDataFile P outFile t =
     path_join P (path_dirname P outFile) (''._temp_data_'' @ js_number t @ ''.sql'')"

text \<open>The \<^verbatim>\<open>try\<close> block of \<^verbatim>\<open>exportSlimSql\<close>: the three phases, then the two unlinks.\<close>

definition exportSlimSql_try ::
  "string \<Rightarrow> string \<Rightarrow> string \<Rightarrow> string \<Rightarrow> string list
     \<Rightarrow> (nat \<Rightarrow> 'a world_scheme \<Rightarrow> 'a world_scheme) option \<Rightarrow> ('a world_scheme, unit) js"
where
  "exportSlimSql_try structureFile dataFile dbName outFile excludeDataTables onProgress =
     js_then (exportStructure dbName structureFile onProgress)
       (\<lambda>_. js_then (exportData dbName dataFile excludeDataTables onProgress)
       (\<lambda>_. js_then (concatenate structureFile dataFile outFile)
       (\<lambda>_. js_then (swallow (fs_unlink structureFile))
       (\<lambda>_. swallow (fs_unlink dataFile)))))"

text \<open>The \<^verbatim>\<open>catch\<close> block: both unlinks with their errors swallowed, then the rethrow.\<close>

definition exportSlimSql_catch :: "string \<Rightarrow> string \<Rightarrow> js_error \<Rightarrow> ('a world_scheme, unit) js" where
  "exportSlimSql_catch structureFile dataFile error =
     js_then (swallow (fs_unlink structureFile))
       (\<lambda>_. js_then (swallow (fs_unlink dataFile))
       (\<lambda>_. js_throw error))"

definition exportSlimSql ::
  "node_path \<Rightarrow> string \<Rightarrow> string \<Rightarrow> string list
     \<Rightarrow> (nat \<Rightarrow> 'a world_scheme \<Rightarrow> 'a world_scheme) option \<Rightarrow> ('a world_scheme, unit) js"
where
  "exportSlimSql P dbName outFile excludeDataTables onProgress w =
     (case date_now w of
        (t1, wa) \<Rightarrow>
          (case date_now wa of
             (t2, wb) \<Rightarrow>
               (let structureFile = tempStructureFile P outFile t1;
                    dataFile = tempDataFile P outFile t2
                in case exportSlimSql_try structureFile dataFile dbName outFile
                          excludeDataTables onProgress wb of
                     (Inr u, w') \<Rightarrow> (Inr u, w')
                   | (Inl error, w') \<Rightarrow> exportSlimSql_catch structureFile dataFile error w')))"

section \<open>lib/files: directories\<close>

definition fs_access :: "string \<Rightarrow> ('a world_scheme, unit) js" where
  "fs_access p w = (if p \<in> set (dirs w) \<or> disk w p \<noteq> None then (Inr (), w) else (Inl (enoent p), w))"

definition fs_mkdir :: "string \<Rightarrow> ('a world_scheme, unit) js" where
  "fs_mkdir p w =
     (case disk w p of
        Some (Faulty e) \<Rightarrow> (Inl e, w)
      | Some (Regular content) \<Rightarrow> (Inl (JsError (Some ''EEXIST'') (''EEXIST: file already exists, '' @ p)), w)
      | None \<Rightarrow> (Inr (), w\<lparr>dirs := p # dirs w\<rparr>))"

definition ensureDirectory :: "string \<Rightarrow> ('a world_scheme, unit) js" where
  "ensureDirectory directory w =
     (case fs_access directory w of
        (Inr u, w1) \<Rightarrow> (Inr u, w1)
      | (Inl e, w1) \<Rightarrow> fs_mkdir directory w1)"

section \<open>electron/ipc-handlers: the slim operation\<close>

text \<open>
  The handler's state is the world together with the variables its progress callbacks
  capture and assign.
\<close>

record slim_state = world +
  lastProgressUpdate :: int
  lastPercentage :: int
  lastExportUpdate :: int
  lastExportPercentage :: int
  lastRestoreUpdate :: int
  lastRestorePercentage :: int

record restore_config =
  enabled :: bool
  databaseNames :: "string \<rightharpoonup> string"

datatype restore_info = RestoreInfo (databaseName: string) (tableCount: nat) (size: nat)

text \<open>
  One entry of \<^verbatim>\<open>results\<close>. The success entry carries the two sizes in bytes, from
  which the formatted sizes and the savings figure are computed for display.
\<close>

datatype item_result =
    ItemOk (fileName: string) (fullBytes: nat) (slimBytes: nat) (slimPathOf: string)
      (restored: "restore_info option")
  | ItemFailed (fileName: string) (error: string)

fun success :: "item_result \<Rightarrow> bool" where
  "success (ItemOk f a b p r) = True"
| "success (ItemFailed f e) = False"

text \<open>The names the loop body derives from \<^verbatim>\<open>files[i]\<close>.\<close>

record item =
  idx :: nat
  n_files :: nat
  fullSqlPath :: string
  baseName :: string
  tempDbName :: string
  slimPath :: string

definition item_of :: "node_path \<Rightarrow> string \<Rightarrow> string list \<Rightarrow> nat \<Rightarrow> item" where
  "item_of P slimDir files i =
     (let fullSqlPath = files ! i;
          baseName = path_basename P fullSqlPath ''.sql''
      in \<lparr>idx = i, n_files = length files, fullSqlPath = fullSqlPath, baseName = baseName,
          tempDbName = baseName @ ''_temp'',
          slimPath = path_join P slimDir (baseName @ ''_slim.sql'')\<rparr>)"

definition progress :: "item \<Rightarrow> string \<Rightarrow> int \<Rightarrow> progress_event" where
  "progress it label percentage =
     \<lparr>current = idx it, total = n_files it, currentFile = Some (baseName it),
      step = label, stepProgress = Some percentage\<rparr>"

text \<open>
  \<^verbatim>\<open>Math.round((bytesProcessed / fileSize) * 100)\<close> in exact arithmetic: the nearest
  integer, a half rounded up.
\<close>

definition js_round_percent :: "nat \<Rightarrow> nat \<Rightarrow> int" where
  "js_round_percent bytesProcessed fileSize =
     int ((200 * bytesProcessed + fileSize) div (2 * fileSize))"

text \<open>The callback given to the import of the full dump.\<close>

definition onImportProgress :: "item \<Rightarrow> nat \<Rightarrow> nat \<Rightarrow> slim_state \<Rightarrow> slim_state" where
  "onImportProgress it fileSize bytesProcessed s =
     (let percentage = (if fileSize > 0 then js_round_percent bytesProcessed fileSize else 0)
      in case date_now s of
           (now, s1) \<Rightarrow>
             if percentage \<noteq> lastPercentage s1 \<and>
                (percentage - lastPercentage s1 \<ge> 1 \<or> now - lastProgressUpdate s1 > 200)
             then send (progress it ''Importing full dump...'' percentage)
                    (s1\<lparr>lastPercentage := percentage, lastProgressUpdate := now\<rparr>)
             else s1)"

text \<open>The callback given to the slim export: one point per MiB, capped at 95.\<close>

definition onExportProgress :: "item \<Rightarrow> nat \<Rightarrow> slim_state \<Rightarrow> slim_state" where
  "onExportProgress it bytesProcessed s =
     (let percentage = min 95 (int (bytesProcessed div (1024 * 1024)))
      in case date_now s of
           (now, s1) \<Rightarrow>
             if percentage \<noteq> lastExportPercentage s1 \<or> now - lastExportUpdate s1 > 200
             then send (progress it ''Exporting slim dump...'' percentage)
                    (s1\<lparr>lastExportPercentage := percentage, lastExportUpdate := now\<rparr>)
             else s1)"

text \<open>The callback given to the import of the slim dump into the restore target.\<close>

definition onRestoreProgress :: "item \<Rightarrow> string \<Rightarrow> nat \<Rightarrow> nat \<Rightarrow> slim_state \<Rightarrow> slim_state" where
  "onRestoreProgress it targetDbName slimFileSize bytesProcessed s =
     (let percentage = (if slimFileSize > 0 then js_round_percent bytesProcessed slimFileSize else 0)
      in case date_now s of
           (now, s1) \<Rightarrow>
             if percentage \<noteq> lastRestorePercentage s1 \<and>
                (percentage - lastRestorePercentage s1 \<ge> 1 \<or> now - lastRestoreUpdate s1 > 200)
             then send (progress it (''Restoring to '' @ targetDbName @ ''...'') percentage)
                    (s1\<lparr>lastRestorePercentage := percentage, lastRestoreUpdate := now\<rparr>)
             else s1)"

text \<open>
  The \<^verbatim>\<open>try\<close> block of one item, first part: temporary database, import of the full
  dump, slim export, drop of the temporary database.
\<close>

definition slim_transform :: "node_path \<Rightarrow> string list \<Rightarrow> item \<Rightarrow> (slim_state, unit) js" where
  "slim_transform P excludeTables it =
     js_then (js_do (send (progress it ''Creating temp database...'' 0)))
       (\<lambda>_. js_then (databaseExists (tempDbName it))
       (\<lambda>exists. js_then (js_when exists (dropDatabase (tempDbName it)))
       (\<lambda>_. js_then (createDatabase (tempDbName it))
       (\<lambda>_. js_then (js_do (send (progress it ''Creating temp database...'' 100)))
       (\<lambda>_. js_then (fs_stat (fullSqlPath it))
       (\<lambda>fileSize. js_then (js_do (send (progress it ''Importing full dump...'' 0)))
       (\<lambda>_. js_then (js_do (\<lambda>s. s\<lparr>lastProgressUpdate := 0, lastPercentage := 0\<rparr>))
       (\<lambda>_. js_then (importSql (tempDbName it) (fullSqlPath it)
                        (Some (onImportProgress it fileSize)))
       (\<lambda>_. js_then (js_do (send (progress it ''Exporting slim dump...'' 0)))
       (\<lambda>_. js_then (js_do (\<lambda>s. s\<lparr>lastExportUpdate := 0, lastExportPercentage := 0\<rparr>))
       (\<lambda>_. js_then (exportSlimSql P (tempDbName it) (slimPath it) excludeTables
                        (Some (onExportProgress it)))
       (\<lambda>_. js_then (js_do (send (progress it ''Cleaning up...'' 0)))
       (\<lambda>_. js_then (dropDatabase (tempDbName it))
       (\<lambda>_. js_do (send (progress it ''Cleaning up...'' 100))))))))))))))))"

text \<open>Second part: the restore of the slim dump into the target, when requested.\<close>

definition restore_into :: "item \<Rightarrow> string \<Rightarrow> (slim_state, restore_info option) js" where
  "restore_into it targetDbName =
     js_then (js_do (send (progress it (''Restoring to '' @ targetDbName @ ''...'') 0)))
       (\<lambda>_. js_then (databaseExists targetDbName)
       (\<lambda>exists. js_then (js_when exists (dropDatabase targetDbName))
       (\<lambda>_. js_then (createDatabase targetDbName)
       (\<lambda>_. js_then (fs_stat (slimPath it))
       (\<lambda>slimFileSize. js_then (js_do (\<lambda>s. s\<lparr>lastRestoreUpdate := 0, lastRestorePercentage := 0\<rparr>))
       (\<lambda>_. js_then (importSql targetDbName (slimPath it)
                        (Some (onRestoreProgress it targetDbName slimFileSize)))
       (\<lambda>_. js_then (getDatabaseInfo targetDbName)
       (\<lambda>dbInfo. js_return (Some (RestoreInfo targetDbName (fst dbInfo) (snd dbInfo)))))))))))"

definition slim_restore :: "restore_config option \<Rightarrow> item \<Rightarrow> (slim_state, restore_info option) js" where
  "slim_restore restoreConfig it =
     (case restoreConfig of
        None \<Rightarrow> js_return None
      | Some rc \<Rightarrow>
          (if enabled rc then
             (case databaseNames rc (fullSqlPath it) of
                None \<Rightarrow> js_return None
              | Some targetDbName \<Rightarrow>
                  (if targetDbName \<noteq> [] then restore_into it targetDbName else js_return None))
           else js_return None))"

text \<open>Third part: the two sizes and the success entry.\<close>

definition slim_results :: "item \<Rightarrow> restore_info option \<Rightarrow> (slim_state, item_result) js" where
  "slim_results it restoreInfo =
     js_then (fs_stat (fullSqlPath it))
       (\<lambda>fullStats. js_then (fs_stat (slimPath it))
       (\<lambda>slimStats. js_return (ItemOk (baseName it) fullStats slimStats (slimPath it) restoreInfo)))"

definition slim_try ::
  "node_path \<Rightarrow> string list \<Rightarrow> restore_config option \<Rightarrow> item \<Rightarrow> (slim_state, item_result) js"
where
  "slim_try P excludeTables restoreConfig it =
     js_then (slim_transform P excludeTables it)
       (\<lambda>_. js_then (slim_restore restoreConfig it)
       (\<lambda>restoreInfo. slim_results it restoreInfo))"

text \<open>
  The \<^verbatim>\<open>catch\<close> block: the inner \<^verbatim>\<open>try\<close> drops the temporary database if the engine
  reports it, and the empty inner \<^verbatim>\<open>catch\<close> swallows whatever that raises.
\<close>

definition slim_cleanup :: "item \<Rightarrow> (slim_state, unit) js" where
  "slim_cleanup it =
     js_then (databaseExists (tempDbName it))
       (\<lambda>exists. js_when exists (dropDatabase (tempDbName it)))"

definition slim_item ::
  "node_path \<Rightarrow> string list \<Rightarrow> restore_config option \<Rightarrow> item \<Rightarrow> slim_state
     \<Rightarrow> item_result \<times> slim_state"
where
  "slim_item P excludeTables restoreConfig it s =
     (case slim_try P excludeTables restoreConfig it s of
        (Inr r, s1) \<Rightarrow> (r, s1)
      | (Inl e, s1) \<Rightarrow>
          (case swallow (slim_cleanup it) s1 of
             (u, s2) \<Rightarrow> (ItemFailed (baseName it) (err_message e), s2)))"

text \<open>The \<^verbatim>\<open>for\<close> loop over the indices of \<^verbatim>\<open>files\<close>.\<close>

function slim_loop ::
  "node_path \<Rightarrow> string \<Rightarrow> string list \<Rightarrow> restore_config option \<Rightarrow> string list \<Rightarrow> nat
     \<Rightarrow> item_result list \<Rightarrow> slim_state \<Rightarrow> item_result list \<times> slim_state"
where
  "slim_loop P slimDir excludeTables restoreConfig files i results s =
     (if i < length files then
        (case slim_item P excludeTables restoreConfig (item_of P slimDir files i) s of
           (r, s') \<Rightarrow> slim_loop P slimDir excludeTables restoreConfig files (i + 1) (results @ [r]) s')
      else (results, s))"
  by pat_completeness auto
termination
  by (relation "measure (\<lambda>(P, slimDir, excludeTables, restoreConfig, files, i, results, s). length files - i)")
     auto

text \<open>
  The handler: exclusion list, output directory, the loop, the final event; anything
  thrown outside the per-item \<^verbatim>\<open>try\<close> is rethrown as \<^verbatim>\<open>Slim dump failed\<close>.
\<close>

definition slim_start_try ::
  "node_path \<Rightarrow> string \<Rightarrow> string list \<Rightarrow> restore_config option \<Rightarrow> (slim_state, item_result list) js"
where
  "slim_start_try P DB_ROOT files restoreConfig =
     js_then (loadExcludeTables (path_join P DB_ROOT ''config/exclude-tables.txt''))
       (\<lambda>excludeTables. js_then (ensureDirectory (path_join P DB_ROOT ''slim''))
       (\<lambda>_. js_then (\<lambda>s. case slim_loop P (path_join P DB_ROOT ''slim'') excludeTables
                                 restoreConfig files 0 [] s of (results, s') \<Rightarrow> (Inr results, s'))
       (\<lambda>results. js_then
           (js_do (send \<lparr>current = length files, total = length files, currentFile = None,
                         step = ''Complete'', stepProgress = None\<rparr>))
       (\<lambda>_. js_return results))))"

definition slim_start ::
  "node_path \<Rightarrow> string \<Rightarrow> string list \<Rightarrow> restore_config option \<Rightarrow> (slim_state, item_result list) js"
where
  "slim_start P DB_ROOT files restoreConfig s =
     (case slim_start_try P DB_ROOT files restoreConfig s of
        (Inr results, s') \<Rightarrow> (Inr results, s')
      | (Inl e, s') \<Rightarrow> (Inl (JsError None (''Slim dump failed: '' @ err_message e)), s'))"

declare slim_loop.simps [simp del]
declare digits.simps [simp del]

section \<open>Vocabulary of the properties\<close>

text \<open>An operation keeps an observation of the state when no run of it changes it.\<close>

definition keeps :: "('s \<Rightarrow> 'v) \<Rightarrow> ('s, 'a) js \<Rightarrow> bool" where
  "keeps f m = (\<forall>s. f (snd (m s)) = f s)"





text \<open>
  An observation that is a list (the commands issued, the step labels sent) grows within
  a set when the run only appends elements of that set to it.
\<close>

definition grows :: "('s \<Rightarrow> 'x list) \<Rightarrow> 'x set \<Rightarrow> 's \<Rightarrow> 's \<Rightarrow> bool" where
  "grows obs A s s' = (\<exists>new. obs s' = obs s @ new \<and> set new \<subseteq> A)"

definition appends :: "('s \<Rightarrow> 'x list) \<Rightarrow> 'x set \<Rightarrow> ('s, 'a) js \<Rightarrow> bool" where
  "appends obs A m = (\<forall>s. grows obs A s (snd (m s)))"

definition steps :: "'a world_scheme \<Rightarrow> string list" where
  "steps s = map step (sent s)"


text \<open>
  The commands the transformation and the failure handler issue for an item, all on its
  temporary database, and the step labels the transformation sends.
\<close>

definition workspace_calls :: "string list \<Rightarrow> item \<Rightarrow> call list" where
  "workspace_calls excludeTables it =
     [ShowDatabasesLike (tempDbName it), DropDatabase (tempDbName it), CreateDatabase (tempDbName it),
      MysqlImport (tempDbName it) (fullSqlPath it), DumpStructure (tempDbName it),
      DumpData (tempDbName it) excludeTables]"

definition workspace_steps :: "string list" where
  "workspace_steps =
     [''Creating temp database...'', ''Importing full dump...'', ''Exporting slim dump...'',
      ''Cleaning up...'']"












section \<open>A POSIX instance of the path functions and concrete runs\<close>

text \<open>
  For plain absolute paths: the base name is what follows the last slash, without the
  extension when it ends with it; joining puts a slash between directory and name.
\<close>

definition posix :: node_path where
  "posix =
     \<lparr>path_basename =
        (\<lambda>p ext. let b = rev (takeWhile (\<lambda>c. c \<noteq> CHR ''/'') (rev p))
                 in if length ext < length b \<and> drop (length b - length ext) b = ext
                    then take (length b - length ext) b else b),
      path_dirname = (\<lambda>p. rev (tl (dropWhile (\<lambda>c. c \<noteq> CHR ''/'') (rev p)))),
      path_join = (\<lambda>d f. d @ ''/'' @ f)\<rparr>"

definition failing :: "string \<Rightarrow> reply" where
  "failing msg = \<lparr>stderr = Some msg, chunks = [], tables = 0, sizeMB = 0\<rparr>"

definition streaming :: "string list \<Rightarrow> reply" where
  "streaming cs = \<lparr>stderr = None, chunks = cs, tables = 0, sizeMB = 0\<rparr>"

text \<open>
  A database directory with one full dump of ten bytes and an exclusion list of a
  comment and two table names; an empty engine; the replies and the clock readings are
  given per run.
\<close>

definition shop_disk :: "string \<rightharpoonup> node" where
  "shop_disk =
     [''/db/full/shop.sql'' \<mapsto> Regular ''0123456789'',
      ''/db/config/exclude-tables.txt'' \<mapsto>
         Regular (''# volatile'' @ [CHR 0x0A] @ ''sessions'' @ [CHR 0x0A] @ '' cache '' @ [CHR 0x0A])]"

definition shop_state :: "reply list \<Rightarrow> int list \<Rightarrow> slim_state" where
  "shop_state replies readings =
     \<lparr>databases = [], disk = shop_disk, dirs = [], script = replies, clock = readings,
      wallclock = 0, calls = [], sent = [],
      lastProgressUpdate = 0, lastPercentage = 0, lastExportUpdate = 0, lastExportPercentage = 0,
      lastRestoreUpdate = 0, lastRestorePercentage = 0\<rparr>"

definition shop_item :: item where
  "shop_item = item_of posix ''/db/slim'' [''/db/full/shop.sql''] 0"

definition shop_restore :: "restore_config option" where
  "shop_restore = Some \<lparr>enabled = True, databaseNames = [''/db/full/shop.sql'' \<mapsto> ''shop_dev'']\<rparr>"

text \<open>
  The engine answers every command of the transformation, then loses the connection
  during the import into the restore target.
\<close>

definition restore_breaks :: "reply list" where
  "restore_breaks =
     [quiet, quiet, quiet, streaming [''CREATE''], streaming [''INSERT''], quiet,
      quiet, quiet, failing ''ERROR 2006: MySQL server has gone away'']"

text \<open>Clock readings of a run, in milliseconds.\<close>

definition ticks :: "int list" where
  "ticks = [1730000000000, 1730000000001, 1730000000050, 1730000000090]"

text \<open>
  The connection is lost during the import of the full dump and is still down when the
  failure handler asks whether the temporary database exists.
\<close>

definition cleanup_breaks :: "reply list" where
  "cleanup_breaks =
     [quiet, quiet, failing ''ERROR 2013: Lost connection to MySQL server during query'',
      failing ''ERROR 2002: Cannot connect to local MySQL server'']"

text \<open>The full dump does not import; the engine stays reachable.\<close>

definition import_fails :: "reply list" where
  "import_fails = [quiet, quiet, failing ''ERROR 1064: You have an error in your SQL syntax'']"

text \<open>
  A database whose schema dumps to 2 MiB, and whose data dump starts with a chunk of
  64 KiB.
\<close>

definition big_schema :: "reply list" where
  "big_schema =
     [quiet, quiet, quiet, streaming [replicate 2097152 CHR ''c''],
      streaming [replicate 65536 CHR ''i''], quiet]"

text \<open>
  A caller of \<^verbatim>\<open>exportSlimSql\<close> whose callback records the counter it is given; a
  schema dump of 24 bytes and a data dump of 6; and the same with a data dump that fails.
\<close>

definition record_counter :: "nat \<Rightarrow> nat list world_scheme \<Rightarrow> nat list world_scheme" where
  "record_counter n w = w\<lparr>world.more := world.more w @ [n]\<rparr>"

definition dump_world :: "nat list world_scheme" where
  "dump_world =
     \<lparr>databases = [''shop_temp''], disk = shop_disk, dirs = [''/db/slim''],
      script = [streaming [''CREATE TABLE t (id INT);''], streaming [''INSERT'']],
      clock = [1730000000000, 1730000000001], wallclock = 0, calls = [], sent = [], \<dots> = []\<rparr>"


definition dump_fails :: "nat list world_scheme" where
  "dump_fails =
     \<lparr>databases = [''shop_temp''], disk = shop_disk, dirs = [''/db/slim''],
      script = [streaming [''CREATE TABLE t (id INT);''],
                failing ''mysqldump: Error 2013: Lost connection to MySQL server''],
      clock = [1730000000000, 1730000000001], wallclock = 0, calls = [], sent = [], \<dots> = []\<rparr>"

section \<open>Sequencing and frame lemmas\<close>

lemma keepsD: "keeps f m \<Longrightarrow> m s = (r, s') \<Longrightarrow> f s' = f s"
  by (metis keeps_def snd_conv)

lemma keeps_then: "keeps f m \<Longrightarrow> (\<And>x. keeps f (k x)) \<Longrightarrow> keeps f (js_then m k)"
  unfolding keeps_def js_then_def
  by (auto split: prod.splits sum.splits) (metis snd_conv)+

lemma keeps_return: "keeps f (js_return x)"
  by (simp add: keeps_def js_return_def)

lemma keeps_throw: "keeps f (js_throw e)"
  by (simp add: keeps_def js_throw_def)

lemma keeps_when: "keeps f m \<Longrightarrow> keeps f (js_when b m)"
  by (simp add: js_when_def keeps_return)

lemma keeps_do: "(\<And>s. f (g s) = f s) \<Longrightarrow> keeps f (js_do g)"
  by (simp add: keeps_def js_do_def)

lemma keeps_swallow: "keeps f m \<Longrightarrow> keeps f (swallow m)"
  by (auto simp: keeps_def swallow_def split: prod.splits) (metis snd_conv)

lemma disk_spawn: "disk (snd (spawn c w)) = disk w"
  by (simp add: spawn_def engine_def Let_def split: option.splits call.splits list.splits)

lemma keeps_disk_databaseExists: "keeps disk (databaseExists n)"
  unfolding keeps_def databaseExists_def
  by (auto split: prod.splits option.splits) (metis disk_spawn snd_conv)+

lemma keeps_disk_dropDatabase: "keeps disk (dropDatabase n)"
  unfolding keeps_def dropDatabase_def
  by (auto split: prod.splits option.splits) (metis disk_spawn snd_conv)+

lemma keeps_disk_createDatabase: "keeps disk (createDatabase n)"
  unfolding keeps_def createDatabase_def
  by (auto split: prod.splits option.splits) (metis disk_spawn snd_conv)+

lemma keeps_disk_getDatabaseInfo: "keeps disk (getDatabaseInfo n)"
  unfolding keeps_def getDatabaseInfo_def
  by (auto split: prod.splits option.splits) (metis disk_spawn snd_conv)+

lemma keeps_fs_stat: "keeps f (fs_stat p)"
  by (simp add: keeps_def fs_stat_def split: option.splits node.splits)

lemma deliver_keeps: "(\<And>n s. f (body n s) = f s) \<Longrightarrow> f (deliver cs b body s) = f s"
  by (induction cs arbitrary: b s) (simp_all add: Let_def)

lemma keeps_disk_importSql:
  "(\<And>n s. disk (cb n s) = disk s) \<Longrightarrow> keeps disk (importSql db file (Some cb))"
  unfolding keeps_def importSql_def
  by (auto simp: Let_def deliver_keeps split: prod.splits option.splits) (metis disk_spawn snd_conv)+

lemma disk_date_now: "date_now s = (t, s1) \<Longrightarrow> disk s1 = disk s"
  by (auto simp: date_now_def split: list.splits)

lemma disk_onRestoreProgress: "disk (onRestoreProgress it t sz n s) = disk s"
  by (cases "date_now s") (auto simp: onRestoreProgress_def Let_def send_def dest: disk_date_now)

lemma keeps_disk_slim_restore: "keeps disk (slim_restore rc it)"
  unfolding slim_restore_def restore_into_def
  by (auto split: option.splits
      intro!: keeps_then keeps_return keeps_when keeps_do keeps_fs_stat keeps_disk_databaseExists
         keeps_disk_dropDatabase keeps_disk_createDatabase keeps_disk_getDatabaseInfo keeps_disk_importSql
      simp: send_def disk_onRestoreProgress)

lemma keeps_disk_slim_cleanup: "keeps disk (slim_cleanup it)"
  unfolding slim_cleanup_def
  by (auto intro!: keeps_then keeps_when keeps_disk_databaseExists keeps_disk_dropDatabase)


lemma js_then_InrE:
  assumes "js_then m k s = (Inr y, s')"
  obtains x s1 where "m s = (Inr x, s1)" and "k x s1 = (Inr y, s')"
  using assms unfolding js_then_def by (auto split: prod.splits sum.splits)


lemma disk_swallow_unlink: "swallow (fs_unlink p) w = (r, w') \<Longrightarrow> disk w' = (disk w)(p := None)"
  by (auto simp: swallow_def fs_unlink_def split: option.splits)

lemma concatenate_Inr:
  assumes "concatenate structureFile dataFile outFile w = (Inr u, w')"
      and "outFile \<noteq> structureFile" and "outFile \<noteq> dataFile"
  shows "\<exists>A B. disk w structureFile = Some (Regular A) \<and> disk w dataFile = Some (Regular B) \<and>
           disk w' outFile = Some (Regular (A @ B)) \<and>
           (\<forall>p. p \<noteq> outFile \<longrightarrow> disk w' p = disk w p)"
  using assms
  unfolding concatenate_def
  by (elim js_then_InrE)
     (auto simp: js_do_def fs_readFile_def writeFile_def appendFile_def
        split: option.splits node.splits)




lemma exportSlimSql_catch_run:
  "\<exists>w'. exportSlimSql_catch structureFile dataFile e w = (Inl e, w') \<and>
         disk w' = (disk w)(structureFile := None, dataFile := None)"
proof -
  obtain r1 w1 where u1: "swallow (fs_unlink structureFile) w = (r1, w1)"
    by (metis prod.collapse)
  obtain r2 w2 where u2: "swallow (fs_unlink dataFile) w1 = (r2, w2)"
    by (metis prod.collapse)
  have r: "r1 = Inr ()" "r2 = Inr ()"
    using u1 u2 by (auto simp: swallow_def split: prod.splits)
  have "exportSlimSql_catch structureFile dataFile e w = (Inl e, w2)"
    using u1 u2 r by (simp add: exportSlimSql_catch_def js_then_def js_throw_def)
  moreover have "disk w2 = (disk w)(structureFile := None, dataFile := None)"
    using disk_swallow_unlink [OF u1] disk_swallow_unlink [OF u2] by simp
  ultimately show ?thesis by blast
qed


section \<open>Observations that only grow\<close>

lemma grows_same: "obs s' = obs s \<Longrightarrow> grows obs A s s'"
  unfolding grows_def by (intro exI [of _ "[]"]) simp

lemma grows_one: "obs s' = obs s @ [x] \<Longrightarrow> x \<in> A \<Longrightarrow> grows obs A s s'"
  unfolding grows_def by (intro exI [of _ "[x]"]) simp

lemma grows_trans: "grows obs A s s1 \<Longrightarrow> grows obs A s1 s2 \<Longrightarrow> grows obs A s s2"
  unfolding grows_def
proof -
  assume "\<exists>n1. obs s1 = obs s @ n1 \<and> set n1 \<subseteq> A" and "\<exists>n2. obs s2 = obs s1 @ n2 \<and> set n2 \<subseteq> A"
  then obtain n1 n2 where "obs s1 = obs s @ n1" "set n1 \<subseteq> A" "obs s2 = obs s1 @ n2" "set n2 \<subseteq> A"
    by blast
  then have "obs s2 = obs s @ (n1 @ n2) \<and> set (n1 @ n2) \<subseteq> A" by simp
  then show "\<exists>new. obs s2 = obs s @ new \<and> set new \<subseteq> A" by blast
qed

lemma grows_weaken: "grows obs A s s' \<Longrightarrow> A \<subseteq> B \<Longrightarrow> grows obs B s s'"
  unfolding grows_def by (meson subset_trans)

lemma appendsD: "appends obs A m \<Longrightarrow> m s = (r, s') \<Longrightarrow> grows obs A s s'"
  by (metis appends_def snd_conv)

lemma appends_then:
  assumes "appends obs A m" and "\<And>x. appends obs A (k x)"
  shows "appends obs A (js_then m k)"
  unfolding appends_def
proof
  fix s
  obtain r s1 where m: "m s = (r, s1)" by (metis prod.collapse)
  have g1: "grows obs A s s1" by (rule appendsD [OF assms(1) m])
  show "grows obs A s (snd (js_then m k s))"
  proof (cases r)
    case (Inl e)
    then show ?thesis using m g1 by (simp add: js_then_def)
  next
    case (Inr x)
    obtain r2 s2 where k: "k x s1 = (r2, s2)" by (metis prod.collapse)
    have "grows obs A s1 s2" by (rule appendsD [OF assms(2) k])
    with g1 have "grows obs A s s2" by (rule grows_trans)
    then show ?thesis using m Inr k by (simp add: js_then_def)
  qed
qed

lemma appends_same: "(\<And>s. obs (snd (m s)) = obs s) \<Longrightarrow> appends obs A m"
  by (simp add: appends_def grows_same)

lemma appends_one: "(\<And>s. obs (snd (m s)) = obs s @ [x]) \<Longrightarrow> x \<in> A \<Longrightarrow> appends obs A m"
  by (simp add: appends_def grows_one)

lemma appends_weaken: "appends obs A m \<Longrightarrow> A \<subseteq> B \<Longrightarrow> appends obs B m"
  unfolding appends_def by (meson grows_weaken)

lemma appends_return: "appends obs A (js_return x)"
  by (simp add: appends_same js_return_def)

lemma appends_throw: "appends obs A (js_throw e)"
  by (simp add: appends_same js_throw_def)

lemma appends_when: "appends obs A m \<Longrightarrow> appends obs A (js_when b m)"
  by (simp add: js_when_def appends_return)

lemma swallow_state: "snd (swallow m s) = snd (m s)"
  by (simp add: swallow_def split: prod.splits)

lemma appends_swallow: "appends obs A m \<Longrightarrow> appends obs A (swallow m)"
  by (simp add: appends_def swallow_state)

lemma appends_do_one: "(\<And>s. obs (f s) = obs s @ [x]) \<Longrightarrow> x \<in> A \<Longrightarrow> appends obs A (js_do f)"
  by (rule appends_one) (simp_all add: js_do_def)

lemma appends_do_same: "(\<And>s. obs (f s) = obs s) \<Longrightarrow> appends obs A (js_do f)"
  by (rule appends_same) (simp add: js_do_def)

lemma deliver_grows:
  "(\<And>n s. grows obs A s (body n s)) \<Longrightarrow> grows obs A s (deliver cs b body s)"
proof (induction cs arbitrary: b s)
  case Nil
  then show ?case by (simp add: grows_same)
next
  case (Cons c cs)
  have "grows obs A s (body (b + length c) s)" by (rule Cons.prems)
  moreover have "grows obs A (body (b + length c) s)
      (deliver cs (b + length c) body (body (b + length c) s))"
    by (rule Cons.IH) (rule Cons.prems)
  ultimately have "grows obs A s (deliver cs (b + length c) body (body (b + length c) s))"
    by (rule grows_trans)
  then show ?case by (simp add: Let_def)
qed

lemma calls_spawn: "calls (snd (spawn c w)) = calls w @ [c]"
  by (simp add: spawn_def engine_def Let_def split: option.splits call.splits list.splits)

lemma sent_spawn: "sent (snd (spawn c w)) = sent w"
  by (simp add: spawn_def engine_def Let_def split: option.splits call.splits list.splits)

lemma steps_spawn: "steps (snd (spawn c w)) = steps w"
  by (simp add: steps_def sent_spawn)

lemma calls_date_now: "calls (snd (date_now s)) = calls s"
  by (auto simp: date_now_def split: list.splits)

lemma steps_date_now: "steps (snd (date_now s)) = steps s"
  by (auto simp: date_now_def steps_def split: list.splits)

lemma databaseExists_state: "snd (databaseExists n s) = snd (spawn (ShowDatabasesLike n) s)"
  by (simp add: databaseExists_def split: prod.splits option.splits)

lemma dropDatabase_state: "snd (dropDatabase n s) = snd (spawn (DropDatabase n) s)"
  by (simp add: dropDatabase_def split: prod.splits option.splits)

lemma createDatabase_state: "snd (createDatabase n s) = snd (spawn (CreateDatabase n) s)"
  by (simp add: createDatabase_def split: prod.splits option.splits)


lemma appends_calls_databaseExists: "ShowDatabasesLike n \<in> A \<Longrightarrow> appends calls A (databaseExists n)"
  by (rule appends_one) (simp_all add: databaseExists_state calls_spawn)

lemma appends_calls_dropDatabase: "DropDatabase n \<in> A \<Longrightarrow> appends calls A (dropDatabase n)"
  by (rule appends_one) (simp_all add: dropDatabase_state calls_spawn)

lemma appends_calls_createDatabase: "CreateDatabase n \<in> A \<Longrightarrow> appends calls A (createDatabase n)"
  by (rule appends_one) (simp_all add: createDatabase_state calls_spawn)

lemma appends_steps_databaseExists: "appends steps A (databaseExists n)"
  by (rule appends_same) (simp add: databaseExists_state steps_spawn)

lemma appends_steps_dropDatabase: "appends steps A (dropDatabase n)"
  by (rule appends_same) (simp add: dropDatabase_state steps_spawn)

lemma appends_steps_createDatabase: "appends steps A (createDatabase n)"
  by (rule appends_same) (simp add: createDatabase_state steps_spawn)

lemma appends_fs_stat: "appends obs A (fs_stat p)"
  by (rule appends_same) (simp add: fs_stat_def split: option.splits node.splits)

lemma appends_fs_readFile: "appends obs A (fs_readFile p)"
  by (rule appends_same) (simp add: fs_readFile_def split: option.splits node.splits)

lemma appends_importSql:
  fixes cb :: "nat \<Rightarrow> 'a world_scheme \<Rightarrow> 'a world_scheme"
  assumes sp: "\<And>w :: 'a world_scheme. grows obs A w (snd (spawn (MysqlImport db f) w))"
      and cb: "\<And>n w. grows obs A w (cb n w)"
  shows "appends obs A (importSql db f (Some cb))"
  unfolding appends_def
proof
  fix s :: "'a world_scheme"
  obtain code r w1 where s1: "spawn (MysqlImport db f) s = ((code, r), w1)"
    by (metis prod.collapse)
  have a: "grows obs A s w1"
    using sp [of s] s1 by simp
  have b: "grows obs A w1 (deliver (chunks r) 0 cb w1)"
    by (rule deliver_grows) (rule cb)
  have "snd (importSql db f (Some cb) s) = deliver (chunks r) 0 cb w1"
    using s1 by (simp add: importSql_def Let_def split: option.splits)
  with grows_trans [OF a b] show "grows obs A s (snd (importSql db f (Some cb) s))"
    by simp
qed

lemma appends_exportStructure:
  fixes cb :: "nat \<Rightarrow> 'a world_scheme \<Rightarrow> 'a world_scheme"
  assumes sp: "\<And>w :: 'a world_scheme. grows obs A w (snd (spawn (DumpStructure db) w))"
      and cb: "\<And>n w. grows obs A w (cb n w)"
      and dk: "\<And>(w :: 'a world_scheme) d. obs (w\<lparr>disk := d\<rparr>) = obs w"
  shows "appends obs A (exportStructure db sf (Some cb))"
  unfolding appends_def
proof
  fix s :: "'a world_scheme"
  obtain code r w1 where s1: "spawn (DumpStructure db) s = ((code, r), w1)"
    by (metis prod.collapse)
  let ?w2 = "writeFile sf (concat (chunks r)) w1"
  let ?body = "\<lambda>bytesWritten. cb (bytesWritten div 2)"
  have a: "grows obs A s w1"
    using sp [of s] s1 by simp
  have b: "grows obs A w1 ?w2"
    by (rule grows_same) (simp add: writeFile_def dk)
  have c: "grows obs A ?w2 (deliver (chunks r) 0 ?body ?w2)"
    by (rule deliver_grows) (rule cb)
  have "snd (exportStructure db sf (Some cb) s) = deliver (chunks r) 0 ?body ?w2"
    using s1 by (simp add: exportStructure_def Let_def split: option.splits)
  with grows_trans [OF grows_trans [OF a b] c]
  show "grows obs A s (snd (exportStructure db sf (Some cb) s))"
    by simp
qed

lemma appends_exportData:
  fixes cb :: "nat \<Rightarrow> 'a world_scheme \<Rightarrow> 'a world_scheme"
  assumes sp: "\<And>w :: 'a world_scheme. grows obs A w (snd (spawn (DumpData db ex) w))"
      and cb: "\<And>n w. grows obs A w (cb n w)"
      and dk: "\<And>(w :: 'a world_scheme) d. obs (w\<lparr>disk := d\<rparr>) = obs w"
  shows "appends obs A (exportData db df ex (Some cb))"
  unfolding appends_def
proof
  fix s :: "'a world_scheme"
  obtain code r w1 where s1: "spawn (DumpData db ex) s = ((code, r), w1)"
    by (metis prod.collapse)
  let ?w2 = "writeFile df (concat (chunks r)) w1"
  let ?body = "\<lambda>bytesWritten. cb (bytesWritten div 2 + bytesWritten)"
  have a: "grows obs A s w1"
    using sp [of s] s1 by simp
  have b: "grows obs A w1 ?w2"
    by (rule grows_same) (simp add: writeFile_def dk)
  have c: "grows obs A ?w2 (deliver (chunks r) 0 ?body ?w2)"
    by (rule deliver_grows) (rule cb)
  have "snd (exportData db df ex (Some cb) s) = deliver (chunks r) 0 ?body ?w2"
    using s1 by (simp add: exportData_def Let_def split: option.splits)
  with grows_trans [OF grows_trans [OF a b] c]
  show "grows obs A s (snd (exportData db df ex (Some cb) s))"
    by simp
qed

lemma appends_concatenate:
  assumes dk: "\<And>(w :: 'a world_scheme) d. obs (w\<lparr>disk := d\<rparr>) = obs w"
  shows "appends obs A (concatenate sf df out :: ('a world_scheme, unit) js)"
  unfolding concatenate_def
  by (intro appends_then appends_do_same appends_fs_readFile)
     (simp_all add: writeFile_def appendFile_def dk split: option.splits node.splits)

lemma appends_unlink:
  assumes dk: "\<And>(w :: 'a world_scheme) d. obs (w\<lparr>disk := d\<rparr>) = obs w"
  shows "appends obs A (swallow (fs_unlink p :: ('a world_scheme, unit) js))"
  by (rule appends_swallow, rule appends_same) (simp add: fs_unlink_def dk split: option.splits)

lemma appends_exportSlimSql:
  fixes cb :: "nat \<Rightarrow> 'a world_scheme \<Rightarrow> 'a world_scheme"
  assumes s1: "\<And>w :: 'a world_scheme. grows obs A w (snd (spawn (DumpStructure db) w))"
      and s2: "\<And>w :: 'a world_scheme. grows obs A w (snd (spawn (DumpData db ex) w))"
      and cb: "\<And>n w. grows obs A w (cb n w)"
      and dk: "\<And>(w :: 'a world_scheme) d. obs (w\<lparr>disk := d\<rparr>) = obs w"
      and dn: "\<And>w :: 'a world_scheme. obs (snd (date_now w)) = obs w"
  shows "appends obs A (exportSlimSql P db out ex (Some cb))"
  unfolding appends_def
proof
  fix s :: "'a world_scheme"
  obtain t1 wa where d1: "date_now s = (t1, wa)" by (metis prod.collapse)
  obtain t2 wb where d2: "date_now wa = (t2, wb)" by (metis prod.collapse)
  let ?sf = "tempStructureFile P out t1" and ?df = "tempDataFile P out t2"
  have ob: "obs wb = obs s"
    using dn [of s] dn [of wa] d1 d2 by simp
  have tr: "appends obs A (exportSlimSql_try ?sf ?df db out ex (Some cb))"
    unfolding exportSlimSql_try_def
    by (intro appends_then appends_exportStructure appends_exportData appends_concatenate
          appends_unlink s1 s2 cb dk)
  have ct: "appends obs A (exportSlimSql_catch ?sf ?df e :: ('a world_scheme, unit) js)" for e
    unfolding exportSlimSql_catch_def
    by (intro appends_then appends_unlink appends_throw dk)
  obtain r wc where t: "exportSlimSql_try ?sf ?df db out ex (Some cb) wb = (r, wc)"
    by (metis prod.collapse)
  have a: "grows obs A s wc"
    using appendsD [OF tr t] ob by (simp add: grows_def)
  show "grows obs A s (snd (exportSlimSql P db out ex (Some cb) s))"
  proof (cases r)
    case (Inr u)
    then have "snd (exportSlimSql P db out ex (Some cb) s) = wc"
      using d1 d2 t by (simp add: exportSlimSql_def Let_def)
    with a show ?thesis by simp
  next
    case (Inl e)
    obtain r' wd where c: "exportSlimSql_catch ?sf ?df e wc = (r', wd)"
      by (metis prod.collapse)
    have "snd (exportSlimSql P db out ex (Some cb) s) = wd"
      using d1 d2 t Inl c by (simp add: exportSlimSql_def Let_def)
    with grows_trans [OF a appendsD [OF ct c]] show ?thesis by simp
  qed
qed


lemma calls_onImportProgress: "calls (onImportProgress it sz n s) = calls s"
  using calls_date_now [of s]
  by (cases "date_now s") (simp add: onImportProgress_def Let_def send_def)

lemma calls_onExportProgress: "calls (onExportProgress it n s) = calls s"
  using calls_date_now [of s]
  by (cases "date_now s") (simp add: onExportProgress_def Let_def send_def)

lemma steps_send: "steps (send (progress it label p) s) = steps s @ [label]"
  by (simp add: steps_def send_def progress_def)

lemma grows_steps_send:
  "steps s' = steps s \<Longrightarrow> label \<in> A \<Longrightarrow> grows steps A s (send (progress it label p) s')"
  by (rule grows_one [of _ _ _ label]) (simp_all add: steps_send)

lemma grows_steps_onImportProgress:
  assumes "''Importing full dump...'' \<in> A"
  shows "grows steps A s (onImportProgress it sz n s)"
proof -
  obtain now s1 where d: "date_now s = (now, s1)" by (metis prod.collapse)
  have st: "steps s1 = steps s" using steps_date_now [of s] d by simp
  then have st': "steps (s1\<lparr>lastPercentage := p, lastProgressUpdate := now\<rparr>) = steps s" for p
    by (simp add: steps_def)
  have g: "grows steps A s s1" by (rule grows_same) (rule st)
  show ?thesis
    unfolding onImportProgress_def Let_def d prod.case
    by (simp add: grows_steps_send [OF st' assms] g)
qed

lemma grows_steps_onExportProgress:
  assumes "''Exporting slim dump...'' \<in> A"
  shows "grows steps A s (onExportProgress it n s)"
proof -
  obtain now s1 where d: "date_now s = (now, s1)" by (metis prod.collapse)
  have st: "steps s1 = steps s" using steps_date_now [of s] d by simp
  then have st': "steps (s1\<lparr>lastExportPercentage := p, lastExportUpdate := now\<rparr>) = steps s" for p
    by (simp add: steps_def)
  have g: "grows steps A s s1" by (rule grows_same) (rule st)
  show ?thesis
    unfolding onExportProgress_def Let_def d prod.case
    by (simp add: grows_steps_send [OF st' assms] g)
qed

lemma grows_calls_spawn: "c \<in> A \<Longrightarrow> grows calls A w (snd (spawn c w))"
  by (rule grows_one [of _ _ _ c]) (simp_all add: calls_spawn)

lemma grows_steps_spawn: "grows steps A w (snd (spawn c w))"
  by (rule grows_same) (simp add: steps_spawn)

lemma grows_calls_onImportProgress: "grows calls A s (onImportProgress it sz n s)"
  by (rule grows_same) (rule calls_onImportProgress)

lemma grows_calls_onExportProgress: "grows calls A s (onExportProgress it n s)"
  by (rule grows_same) (rule calls_onExportProgress)

lemma appends_calls_send: "appends calls A (js_do (send ev))"
  by (rule appends_do_same) (simp add: send_def)

lemma appends_steps_send: "label \<in> A \<Longrightarrow> appends steps A (js_do (send (progress it label p)))"
  by (rule appends_do_one) (simp_all add: steps_send)

lemma appends_calls_import_full:
  "MysqlImport db f \<in> A \<Longrightarrow> appends calls A (importSql db f (Some (onImportProgress it sz)))"
  by (rule appends_importSql) (simp_all add: grows_calls_spawn grows_calls_onImportProgress)

lemma appends_steps_import_full:
  "''Importing full dump...'' \<in> A \<Longrightarrow>
   appends steps A (importSql db f (Some (onImportProgress it sz)))"
  by (rule appends_importSql) (simp_all add: grows_steps_spawn grows_steps_onImportProgress)

lemma appends_calls_export_slim:
  "DumpStructure db \<in> A \<Longrightarrow> DumpData db ex \<in> A \<Longrightarrow>
   appends calls A (exportSlimSql P db out ex (Some (onExportProgress it)))"
  by (rule appends_exportSlimSql)
     (simp_all add: grows_calls_spawn grows_calls_onExportProgress calls_date_now)

lemma appends_steps_export_slim:
  "''Exporting slim dump...'' \<in> A \<Longrightarrow>
   appends steps A (exportSlimSql P db out ex (Some (onExportProgress it)))"
  by (rule appends_exportSlimSql)
     (simp_all add: grows_steps_spawn grows_steps_onExportProgress steps_date_now, simp add: steps_def)

lemma appends_calls_reset1:
  "appends calls A (js_do (\<lambda>s. s\<lparr>lastProgressUpdate := a, lastPercentage := b\<rparr>))"
  by (rule appends_do_same) simp

lemma appends_calls_reset2:
  "appends calls A (js_do (\<lambda>s. s\<lparr>lastExportUpdate := a, lastExportPercentage := b\<rparr>))"
  by (rule appends_do_same) simp

lemma appends_steps_reset1:
  "appends steps A (js_do (\<lambda>s. s\<lparr>lastProgressUpdate := a, lastPercentage := b\<rparr>))"
  by (rule appends_do_same) (simp add: steps_def)

lemma appends_steps_reset2:
  "appends steps A (js_do (\<lambda>s. s\<lparr>lastExportUpdate := a, lastExportPercentage := b\<rparr>))"
  by (rule appends_do_same) (simp add: steps_def)

lemma appends_calls_transform:
  "appends calls (set (workspace_calls ex it)) (slim_transform P ex it)"
  unfolding slim_transform_def
  by (intro appends_then appends_when appends_calls_send appends_fs_stat
      appends_calls_databaseExists appends_calls_dropDatabase appends_calls_createDatabase
      appends_calls_import_full appends_calls_export_slim appends_calls_reset1 appends_calls_reset2)
     (simp_all add: workspace_calls_def)

lemma appends_steps_transform:
  "appends steps (set workspace_steps) (slim_transform P ex it)"
  unfolding slim_transform_def
  by (intro appends_then appends_when appends_steps_send appends_fs_stat
      appends_steps_databaseExists appends_steps_dropDatabase appends_steps_createDatabase
      appends_steps_import_full appends_steps_export_slim appends_steps_reset1 appends_steps_reset2)
     (simp_all add: workspace_steps_def)

lemma appends_calls_cleanup:
  "appends calls (set (workspace_calls ex it)) (swallow (slim_cleanup it))"
  unfolding slim_cleanup_def
  by (intro appends_swallow appends_then appends_when appends_calls_databaseExists
        appends_calls_dropDatabase) (simp_all add: workspace_calls_def)

lemma appends_steps_cleanup:
  "appends steps A (swallow (slim_cleanup it))"
  unfolding slim_cleanup_def
  by (intro appends_swallow appends_then appends_when appends_steps_databaseExists
        appends_steps_dropDatabase)


section \<open>Databases of the engine\<close>


















section \<open>The import throttle\<close>







section \<open>Lines, trimming and names\<close>

text \<open>
  The pieces of a split, each followed by the separator, give the text back, and no piece
  holds the separator; trimming removes white space only, and all of it at both ends.
\<close>

lemma js_split_join:
  "concat (map (\<lambda>l. l @ [sep]) (js_split sep s)) = s @ [sep]"
  by (induction s) (auto split: list.splits)

lemma js_split_no_sep: "l \<in> set (js_split sep s) \<Longrightarrow> sep \<notin> set l"
  by (induction s arbitrary: l) (auto split: list.splits if_splits)

lemma js_trim_shape:
  "\<exists>a b. s = a @ js_trim s @ b \<and> (\<forall>c\<in>set a. is_white_space c) \<and> (\<forall>c\<in>set b. is_white_space c)"
proof -
  let ?t = "dropWhile is_white_space s"
  have 1: "s = takeWhile is_white_space s @ ?t" by simp
  have 2: "?t = js_trim s @ rev (takeWhile is_white_space (rev ?t))"
    by (metis js_trim_def rev_append rev_rev_ident takeWhile_dropWhile_id)
  have "s = takeWhile is_white_space s @ js_trim s @ rev (takeWhile is_white_space (rev ?t))"
    using 1 2 by metis
  moreover have "\<forall>c\<in>set (takeWhile is_white_space s). is_white_space c"
    by (auto dest: set_takeWhileD)
  moreover have "\<forall>c\<in>set (rev (takeWhile is_white_space (rev ?t))). is_white_space c"
    by (auto dest: set_takeWhileD)
  ultimately show ?thesis by blast
qed

lemma js_trim_ends:
  assumes "js_trim s \<noteq> []"
  shows "\<not> is_white_space (hd (js_trim s)) \<and> \<not> is_white_space (last (js_trim s))"
proof -
  let ?t = "dropWhile is_white_space s"
  let ?u = "dropWhile is_white_space (rev ?t)"
  have u: "?u \<noteq> []" using assms by (simp add: js_trim_def)
  have l: "\<not> is_white_space (last (js_trim s))"
    using u hd_dropWhile [of is_white_space "rev ?t"] by (simp add: js_trim_def last_rev)
  have t: "?t \<noteq> []"
  proof
    assume "?t = []"
    then have "?u = []" by (simp del: dropWhile_eq_Nil_conv)
    with u show False by simp
  qed
  have "?t = js_trim s @ rev (takeWhile is_white_space (rev ?t))"
    by (metis js_trim_def rev_append rev_rev_ident takeWhile_dropWhile_id)
  then have "hd ?t = hd (js_trim s)"
    using assms by (metis hd_append2)
  with hd_dropWhile [of is_white_space s] t l show ?thesis by simp
qed








section \<open>The loop over the files\<close>




lemma keeps_disk_swallow_cleanup: "keeps disk (swallow (slim_cleanup it))"
  by (rule keeps_swallow) (rule keeps_disk_slim_cleanup)



section \<open>Unfolding a concrete run\<close>

lemmas run =
  posix_def failing_def streaming_def shop_disk_def shop_state_def shop_item_def shop_restore_def
  restore_breaks_def ticks_def dump_fails_def cleanup_breaks_def import_fails_def big_schema_def dump_world_def record_counter_def
  slim_start_def slim_start_try_def slim_item_def slim_try_def
  slim_transform_def slim_restore_def slim_results_def slim_cleanup_def restore_into_def
  item_of_def progress_def onImportProgress_def onExportProgress_def onRestoreProgress_def
  js_round_percent_def ensureDirectory_def fs_access_def fs_mkdir_def loadExcludeTables_def
  exportSlimSql_def exportSlimSql_try_def exportSlimSql_catch_def tempStructureFile_def tempDataFile_def
  concatenate_def appendFile_def exportStructure_def exportData_def swallow_def importSql_def
  getDatabaseInfo_def createDatabase_def dropDatabase_def databaseExists_def
  fs_readFile_def fs_stat_def fs_unlink_def writeFile_def enoent_def send_def date_now_def spawn_def engine_def
  quiet_def js_number_def digits.simps js_trim_def is_white_space_def startsWith_def
  js_then_def js_return_def js_throw_def js_do_def js_when_def Let_def

section \<open>C1: a failing item does not stop the batch\<close>



section \<open>C2: the slim dump is the structure dump followed by the data dump\<close>

text \<open>
  C2. When \<^verbatim>\<open>exportSlimSql\<close> resolves, and the output path is neither of the two
  temporary paths, both export phases resolved and the output file holds the bytes of
  the structure file followed by the bytes of the data file, as the two files were when
  the data phase ended, and nothing else.
\<close>

theorem slim_output_is_structure_then_data:
  assumes "date_now w = (t1, wa)" and "date_now wa = (t2, wb)"
      and "exportSlimSql P dbName outFile ex onProgress w = (Inr (), w')"
      and "outFile \<noteq> tempStructureFile P outFile t1"
      and "outFile \<noteq> tempDataFile P outFile t2"
  shows "\<exists>w1 w2 A B.
           exportStructure dbName (tempStructureFile P outFile t1) onProgress wb = (Inr (), w1) \<and>
           exportData dbName (tempDataFile P outFile t2) ex onProgress w1 = (Inr (), w2) \<and>
           disk w2 (tempStructureFile P outFile t1) = Some (Regular A) \<and>
           disk w2 (tempDataFile P outFile t2) = Some (Regular B) \<and>
           disk w' outFile = Some (Regular (A @ B))"
proof -
  let ?sf = "tempStructureFile P outFile t1"
  let ?df = "tempDataFile P outFile t2"
  have tr: "exportSlimSql_try ?sf ?df dbName outFile ex onProgress wb = (Inr (), w')"
  proof (cases "exportSlimSql_try ?sf ?df dbName outFile ex onProgress wb")
    case (Pair r wc)
    show ?thesis
    proof (cases r)
      case (Inl e)
      obtain wd where "exportSlimSql_catch ?sf ?df e wc = (Inl e, wd)"
        using exportSlimSql_catch_run by blast
      with assms(1-3) Pair Inl show ?thesis
        by (simp add: exportSlimSql_def Let_def)
    next
      case (Inr u)
      with assms(1-3) Pair show ?thesis
        by (simp add: exportSlimSql_def Let_def)
    qed
  qed
  from tr obtain w1 w2 w3 w4 where
    p1: "exportStructure dbName ?sf onProgress wb = (Inr (), w1)" and
    p2: "exportData dbName ?df ex onProgress w1 = (Inr (), w2)" and
    p3: "concatenate ?sf ?df outFile w2 = (Inr (), w3)" and
    u1: "swallow (fs_unlink ?sf) w3 = (Inr (), w4)" and
    u2: "swallow (fs_unlink ?df) w4 = (Inr (), w')"
    unfolding exportSlimSql_try_def by (elim js_then_InrE) auto
  from concatenate_Inr [OF p3 assms(4,5)] obtain A B where
    ab: "disk w2 ?sf = Some (Regular A)" "disk w2 ?df = Some (Regular B)"
        "disk w3 outFile = Some (Regular (A @ B))"
    by blast
  have "disk w' outFile = disk w3 outFile"
    using disk_swallow_unlink [OF u1] disk_swallow_unlink [OF u2] assms(4,5) by simp
  with p1 p2 ab show ?thesis by auto
qed

theorem slim_output_is_structure_then_data_witness:
  "date_now dump_world = (1730000000000, dump_world\<lparr>clock := [1730000000001], wallclock := 1730000000000\<rparr>) \<and>
   date_now (dump_world\<lparr>clock := [1730000000001], wallclock := 1730000000000\<rparr>)
     = (1730000000001, dump_world\<lparr>clock := [], wallclock := 1730000000001\<rparr>) \<and>
   fst (exportSlimSql posix ''shop_temp'' ''/db/slim/shop_slim.sql'' [] (Some record_counter) dump_world)
     = Inr () \<and>
   tempStructureFile posix ''/db/slim/shop_slim.sql'' 1730000000000
     = ''/db/slim/._temp_structure_1730000000000.sql'' \<and>
   tempDataFile posix ''/db/slim/shop_slim.sql'' 1730000000001
     = ''/db/slim/._temp_data_1730000000001.sql'' \<and>
   disk (snd (exportSlimSql posix ''shop_temp'' ''/db/slim/shop_slim.sql'' [] (Some record_counter)
                dump_world)) ''/db/slim/shop_slim.sql''
     = Some (Regular ''CREATE TABLE t (id INT);INSERT'') \<and>
   (\<exists>(w2 :: nat list world_scheme) A B.
      disk w2 ''/db/slim/._temp_structure_1730000000000.sql'' = Some (Regular A) \<and>
      disk w2 ''/db/slim/._temp_data_1730000000001.sql'' = Some (Regular B) \<and>
      disk (snd (exportSlimSql posix ''shop_temp'' ''/db/slim/shop_slim.sql'' []
                   (Some record_counter) dump_world)) ''/db/slim/shop_slim.sql''
        = Some (Regular (A @ B)))"
proof -
  let ?wa = "dump_world\<lparr>clock := [1730000000001], wallclock := 1730000000000\<rparr>"
  let ?wb = "dump_world\<lparr>clock := [], wallclock := 1730000000001\<rparr>"
  let ?run = "exportSlimSql posix ''shop_temp'' ''/db/slim/shop_slim.sql'' [] (Some record_counter)
                dump_world"
  have d1: "date_now dump_world = (1730000000000, ?wa)"
    by (simp add: run)
  have d2: "date_now ?wa = (1730000000001, ?wb)"
    by (simp add: run)
  have ok: "fst ?run = Inr ()"
    by (simp add: run)
  have sf: "tempStructureFile posix ''/db/slim/shop_slim.sql'' 1730000000000
      = ''/db/slim/._temp_structure_1730000000000.sql''"
    by (simp add: run)
  have df: "tempDataFile posix ''/db/slim/shop_slim.sql'' 1730000000001
      = ''/db/slim/._temp_data_1730000000001.sql''"
    by (simp add: run)
  have out: "disk (snd ?run) ''/db/slim/shop_slim.sql''
      = Some (Regular ''CREATE TABLE t (id INT);INSERT'')"
    by (simp add: run)
  have ok': "?run = (Inr (), snd ?run)"
    using ok by (metis prod.collapse)
  have n1: "''/db/slim/shop_slim.sql'' \<noteq> tempStructureFile posix ''/db/slim/shop_slim.sql'' 1730000000000"
    unfolding sf by simp
  have n2: "''/db/slim/shop_slim.sql'' \<noteq> tempDataFile posix ''/db/slim/shop_slim.sql'' 1730000000001"
    unfolding df by simp
  from slim_output_is_structure_then_data [OF d1 d2 ok' n1 n2]
  have "\<exists>(w2 :: nat list world_scheme) A B.
      disk w2 ''/db/slim/._temp_structure_1730000000000.sql'' = Some (Regular A) \<and>
      disk w2 ''/db/slim/._temp_data_1730000000001.sql'' = Some (Regular B) \<and>
      disk (snd ?run) ''/db/slim/shop_slim.sql'' = Some (Regular (A @ B))"
    unfolding sf df by blast
  with d1 d2 ok sf df out show ?thesis by (intro conjI)
qed

section \<open>C3: a failed export phase leaves the output alone\<close>



section \<open>C4: the temporary database after an item\<close>




section \<open>C5: the counter given to the export callback\<close>

text \<open>
  C5. The schema phase gives the callback half the bytes written; the data phase gives it
  half the bytes written plus the bytes written of that same phase, not plus the schema
  phase's final value. With a schema dump of 24 bytes and a data dump of 6 the callback
  receives 12 and then 9: the counter goes down where the phases meet.
\<close>

theorem data_phase_counter_restarts:
  "world.more (snd (exportSlimSql posix ''shop_temp'' ''/db/slim/shop_slim.sql'' []
                      (Some record_counter) dump_world)) = [12, 9]"
  by (simp add: run)

section \<open>C6: when an import update is emitted\<close>




section \<open>C7: percentages under one step label\<close>

text \<open>
  C7. Under the label of the slim export the percentages sent for an item are not
  monotonic: with a schema dump of 2 MiB and a first data chunk of 64 KiB the item sends
  0, then 1 for the schema phase, then 0 for the data phase, whose counter starts again
  from its own bytes.
\<close>

theorem export_percentage_goes_down:
  "map stepProgress
     (filter (\<lambda>ev. step ev = ''Exporting slim dump...'')
        (sent (snd (slim_item posix [] None shop_item (shop_state big_schema ticks)))))
     = [Some 0, Some 1, Some 0]"
  by (simp add: run)

section \<open>C8: a failed item and the restore\<close>

text \<open>
  C8, as stated, fails: the transformation succeeds, the restore drops nothing, creates
  the target, starts the import of the slim dump into it, and the import fails; the item
  is recorded with success false, and the engine keeps the new target.
\<close>

theorem failed_item_after_restore_attempt:
  "fst (slim_item posix [] shop_restore shop_item (shop_state restore_breaks ticks))
     = ItemFailed ''shop'' ''MySQL import failed: ERROR 2006: MySQL server has gone away'' \<and>
   success (fst (slim_item posix [] shop_restore shop_item (shop_state restore_breaks ticks))) = False \<and>
   calls (snd (slim_item posix [] shop_restore shop_item (shop_state restore_breaks ticks)))
     = [ShowDatabasesLike ''shop_temp'', CreateDatabase ''shop_temp'',
        MysqlImport ''shop_temp'' ''/db/full/shop.sql'', DumpStructure ''shop_temp'',
        DumpData ''shop_temp'' [], DropDatabase ''shop_temp'',
        ShowDatabasesLike ''shop_dev'', CreateDatabase ''shop_dev'',
        MysqlImport ''shop_dev'' ''/db/slim/shop_slim.sql'',
        ShowDatabasesLike ''shop_temp''] \<and>
   databases (snd (slim_item posix [] shop_restore shop_item (shop_state restore_breaks ticks)))
     = [''shop_dev'']"
  by (simp add: run)

text \<open>
  C8, amended. When an item fails before the restore step, that is, when its
  transformation (temporary database, import, slim export, drop) throws, the item is
  recorded as failed and no restore was attempted: every command issued for the item,
  the failure handler's included, is one of the six commands on its temporary database,
  and every step label sent is one of the four labels of the transformation.
\<close>

theorem failure_before_restore_attempts_none:
  assumes "slim_transform P ex it s = (Inl e, s1)"
  shows "\<exists>s'. slim_item P ex rc it s = (ItemFailed (baseName it) (err_message e), s') \<and>
           grows calls (set (workspace_calls ex it)) s s' \<and>
           grows steps (set workspace_steps) s s'"
proof -
  have tr: "slim_try P ex rc it s = (Inl e, s1)"
    using assms by (simp add: slim_try_def js_then_def)
  obtain u s' where c: "swallow (slim_cleanup it) s1 = (u, s')"
    by (metis prod.collapse)
  have "grows calls (set (workspace_calls ex it)) s s'"
    using grows_trans [OF appendsD [OF appends_calls_transform assms]
                          appendsD [OF appends_calls_cleanup c]] .
  moreover have "grows steps (set workspace_steps) s s'"
    using grows_trans [OF appendsD [OF appends_steps_transform assms]
                          appendsD [OF appends_steps_cleanup c]] .
  ultimately show ?thesis
    using tr c by (simp add: slim_item_def)
qed

theorem failure_before_restore_attempts_none_witness:
  "fst (slim_transform posix [] shop_item (shop_state import_fails []))
     = Inl (JsError None ''MySQL import failed: ERROR 1064: You have an error in your SQL syntax'') \<and>
   (\<exists>s'. slim_item posix [] shop_restore shop_item (shop_state import_fails [])
           = (ItemFailed ''shop'' ''MySQL import failed: ERROR 1064: You have an error in your SQL syntax'', s') \<and>
         grows calls (set (workspace_calls [] shop_item)) (shop_state import_fails []) s' \<and>
         grows steps (set workspace_steps) (shop_state import_fails []) s') \<and>
   calls (snd (slim_item posix [] shop_restore shop_item (shop_state import_fails [])))
     = [ShowDatabasesLike ''shop_temp'', CreateDatabase ''shop_temp'',
        MysqlImport ''shop_temp'' ''/db/full/shop.sql'',
        ShowDatabasesLike ''shop_temp'', DropDatabase ''shop_temp'']"
proof -
  let ?s = "shop_state import_fails []"
  let ?e = "JsError None ''MySQL import failed: ERROR 1064: You have an error in your SQL syntax''"
  have t: "fst (slim_transform posix [] shop_item ?s) = Inl ?e"
    by (simp add: run)
  have t': "slim_transform posix [] shop_item ?s = (Inl ?e, snd (slim_transform posix [] shop_item ?s))"
    using t by (metis prod.collapse)
  have name: "baseName shop_item = ''shop''"
    by (simp add: run)
  have cs: "calls (snd (slim_item posix [] shop_restore shop_item ?s))
     = [ShowDatabasesLike ''shop_temp'', CreateDatabase ''shop_temp'',
        MysqlImport ''shop_temp'' ''/db/full/shop.sql'',
        ShowDatabasesLike ''shop_temp'', DropDatabase ''shop_temp'']"
    by (simp add: run)
  from failure_before_restore_attempts_none [OF t', of shop_restore] t cs name show ?thesis
    by simp
qed

section \<open>C9: loading the exclusion list\<close>



section \<open>C10: a failed restore leaves the slim dump\<close>

text \<open>
  C10. When the transformation of an item succeeded (the slim dump is composed and the
  temporary database dropped) and the restore step then throws, the item's entry is the
  failure entry, which has no output path, and the filesystem after the failure handler
  is the filesystem the transformation left: the handler and the restore step write,
  truncate and delete no file, the slim dump included.
\<close>

theorem restore_failure_keeps_output:
  assumes "slim_transform P ex it s = (Inr (), s1)"
      and "slim_restore rc it s1 = (Inl e, s2)"
  shows "\<exists>s3. slim_item P ex rc it s = (ItemFailed (baseName it) (err_message e), s3)
           \<and> disk s3 = disk s1"
proof -
  have tr: "slim_try P ex rc it s = (Inl e, s2)"
    using assms by (simp add: slim_try_def js_then_def)
  obtain u s3 where c: "swallow (slim_cleanup it) s2 = (u, s3)"
    by (cases "swallow (slim_cleanup it) s2")
  have "disk s3 = disk s2"
    using keepsD [OF keeps_disk_swallow_cleanup c] .
  moreover have "disk s2 = disk s1"
    using keepsD [OF keeps_disk_slim_restore assms(2)] .
  ultimately show ?thesis
    using tr c by (simp add: slim_item_def)
qed

theorem restore_failure_keeps_output_witness:
  "fst (slim_transform posix [] shop_item (shop_state restore_breaks [])) = Inr () \<and>
   fst (slim_restore shop_restore shop_item
          (snd (slim_transform posix [] shop_item (shop_state restore_breaks []))))
     = Inl (JsError None ''MySQL import failed: ERROR 2006: MySQL server has gone away'') \<and>
   fst (slim_item posix [] shop_restore shop_item (shop_state restore_breaks []))
     = ItemFailed ''shop'' ''MySQL import failed: ERROR 2006: MySQL server has gone away'' \<and>
   disk (snd (slim_item posix [] shop_restore shop_item (shop_state restore_breaks [])))
        ''/db/slim/shop_slim.sql''
     = Some (Regular ''CREATEINSERT'')"
proof -
  let ?s = "shop_state restore_breaks []"
  let ?s1 = "snd (slim_transform posix [] shop_item ?s)"
  let ?e = "JsError None ''MySQL import failed: ERROR 2006: MySQL server has gone away''"
  have a: "fst (slim_transform posix [] shop_item ?s) = Inr ()"
    by (simp add: run)
  have out: "disk ?s1 ''/db/slim/shop_slim.sql'' = Some (Regular ''CREATEINSERT'')"
    by (simp add: run)
  have b: "fst (slim_restore shop_restore shop_item ?s1) = Inl ?e"
    by (simp add: run)
  have a': "slim_transform posix [] shop_item ?s = (Inr (), ?s1)"
    using a by (metis prod.collapse)
  have b': "slim_restore shop_restore shop_item ?s1
      = (Inl ?e, snd (slim_restore shop_restore shop_item ?s1))"
    using b by (metis prod.collapse)
  have name: "baseName shop_item = ''shop''"
    by (simp add: run)
  from restore_failure_keeps_output [OF a' b'] a b out name show ?thesis
    by auto
qed

end
